theory Spec2Isabelle
  imports Main
begin

text \<open>
  This theory embeds \<open>server.py\<close>, the whole of the weather server: the fetcher
  \<open>make_openmeteo_request\<close> and the three tools \<open>get_current_weather\<close>, \<open>get_forecast\<close>
  and \<open>get_location\<close>. What the server takes from Python and its libraries is modelled
  beside it: the formatting of numbers in an f-string, \<open>json.dumps\<close> and \<open>json.loads\<close> with
  their default arguments, and the request of \<open>httpx\<close>.

  \<^item> A coroutine is a function; each \<open>await\<close> is a call. A tool makes one request.
  \<^item> The network is an argument: a function from the request to an exception or a response.
  \<^item> An exception is a value. The exceptions are those below \<open>Exception\<close>, which the
    fetcher's \<open>except\<close> clause names; the cancellation of a task is not among them.
  \<^item> A Python \<open>str\<close> is a \<open>string\<close>: the characters are the code points below 256.
  \<^item> A Python \<open>int\<close> is an \<open>int\<close>. A Python \<open>float\<close> is the decimal that its \<open>repr\<close> prints:
    \<open>Finite neg m e\<close> stands for \<open>m * 10 ^ e\<close> with the sign \<open>neg\<close>, and the rounding of a
    decimal text to binary64 is left to the float type.
  \<^item> The limits of an interpreter (recursion depth, the digits of an integer conversion)
    are no part of the model.
\<close>

section \<open>Python text and numbers\<close>

text \<open>\<open>str\<close> of a natural number and of an integer, in decimal.\<close>

definition digit_char :: "nat \<Rightarrow> char" where
  "digit_char d = char_of (48 + d)"

fun str_nat :: "nat \<Rightarrow> string" where
  "str_nat n = (if n < 10 then [digit_char n] else str_nat (n div 10) @ [digit_char (n mod 10)])"

declare str_nat.simps [simp del]

definition str_int :: "int \<Rightarrow> string" where
  "str_int i = (if i < 0 then CHR ''-'' # str_nat (nat (- i)) else str_nat (nat i))"

text \<open>
  \<open>repr\<close> of a float, which is also its \<open>str\<close> and its format in an f-string: with
  \<open>decpt\<close> the position of the decimal point among the digits, the exponent form is used
  when \<open>decpt \<le> -4\<close> or \<open>decpt > 16\<close>, and a whole number gets \<open>.0\<close>.
\<close>

datatype pyfloat = Finite bool nat int | Inf bool | NaN

definition exp_str :: "int \<Rightarrow> string" where
  "exp_str x =
     (if x < 0 then CHR ''-'' else CHR ''+'') #
     (if nat \<bar>x\<bar> < 10 then CHR ''0'' # str_nat (nat \<bar>x\<bar>) else str_nat (nat \<bar>x\<bar>))"

definition float_repr_finite :: "nat \<Rightarrow> int \<Rightarrow> string" where
  "float_repr_finite m e =
     (let ds = str_nat m; n = int (length ds); decpt = n + e in
      if decpt \<le> - 4 \<or> decpt > 16 then
        take 1 ds @ (if n > 1 then CHR ''.'' # drop 1 ds else []) @ CHR ''e'' # exp_str (decpt - 1)
      else if decpt \<le> 0 then ''0.'' @ replicate (nat (- decpt)) CHR ''0'' @ ds
      else if decpt \<ge> n then ds @ replicate (nat (decpt - n)) CHR ''0'' @ ''.0''
      else take (nat decpt) ds @ CHR ''.'' # drop (nat decpt) ds)"

fun float_repr :: "pyfloat \<Rightarrow> string" where
  "float_repr (Finite neg m e) = (if neg then CHR ''-'' # float_repr_finite m e else float_repr_finite m e)"
| "float_repr (Inf neg) = (if neg then ''-inf'' else ''inf'')"
| "float_repr NaN = ''nan''"


section \<open>JSON values and \<open>json.dumps\<close>\<close>

datatype json =
    JNull
  | JBool bool
  | JInt int
  | JFloat pyfloat
  | JStr string
  | JArr "json list"
  | JObj "(string \<times> json) list"

text \<open>
  A decoded JSON value. An object is a \<open>dict\<close>: its pairs in insertion order; Python's
  \<open>None\<close> is \<open>JNull\<close>.

  \<open>json.dumps\<close> with its defaults: \<open>ensure_ascii\<close> escapes every character outside the
  printable ASCII range, the separators are \<open>", "\<close> and \<open>": "\<close>, and a float that is not
  finite is written \<open>NaN\<close>, \<open>Infinity\<close> or \<open>-Infinity\<close>.
\<close>

definition hex_char :: "nat \<Rightarrow> char" where
  "hex_char k = (if k < 10 then char_of (48 + k) else char_of (87 + k))"

definition hex4 :: "nat \<Rightarrow> string" where
  "hex4 n = [hex_char (n div 4096 mod 16), hex_char (n div 256 mod 16),
             hex_char (n div 16 mod 16), hex_char (n mod 16)]"

definition escape_char :: "char \<Rightarrow> string" where
  "escape_char c =
     (if c = CHR 0x5C then [CHR 0x5C, CHR 0x5C]
      else if c = CHR 0x22 then [CHR 0x5C, CHR 0x22]
      else if c = CHR 0x08 then [CHR 0x5C, CHR ''b'']
      else if c = CHR 0x0C then [CHR 0x5C, CHR ''f'']
      else if c = CHR 0x0A then [CHR 0x5C, CHR ''n'']
      else if c = CHR 0x0D then [CHR 0x5C, CHR ''r'']
      else if c = CHR 0x09 then [CHR 0x5C, CHR ''t'']
      else if 32 \<le> (of_char c :: nat) \<and> (of_char c :: nat) \<le> 126 then [c]
      else CHR 0x5C # CHR ''u'' # hex4 (of_char c))"

definition encode_basestring_ascii :: "string \<Rightarrow> string" where
  "encode_basestring_ascii s = CHR 0x22 # concat (map escape_char s) @ [CHR 0x22]"

fun floatstr :: "pyfloat \<Rightarrow> string" where
  "floatstr NaN = ''NaN''"
| "floatstr (Inf neg) = (if neg then ''-Infinity'' else ''Infinity'')"
| "floatstr (Finite neg m e) = float_repr (Finite neg m e)"

fun json_dumps :: "json \<Rightarrow> string"
  and dumps_list :: "json list \<Rightarrow> string"
  and dumps_dict :: "(string \<times> json) list \<Rightarrow> string" where
  "json_dumps JNull = ''null''"
| "json_dumps (JBool b) = (if b then ''true'' else ''false'')"
| "json_dumps (JInt i) = str_int i"
| "json_dumps (JFloat f) = floatstr f"
| "json_dumps (JStr s) = encode_basestring_ascii s"
| "json_dumps (JArr vs) = CHR ''['' # dumps_list vs @ '']''"
| "json_dumps (JObj ps) = CHR ''{'' # dumps_dict ps @ ''}''"
| "dumps_list [] = []"
| "dumps_list [v] = json_dumps v"
| "dumps_list (v # w # vs) = json_dumps v @ '', '' @ dumps_list (w # vs)"
| "dumps_dict [] = []"
| "dumps_dict [(k, v)] = encode_basestring_ascii k @ '': '' @ json_dumps v"
| "dumps_dict ((k, v) # p # ps) =
     encode_basestring_ascii k @ '': '' @ json_dumps v @ '', '' @ dumps_dict (p # ps)"


section \<open>\<open>json.loads\<close>\<close>

text \<open>
  \<open>json.loads\<close> with its defaults, on a text already decoded to characters. White space is
  space, tab, line feed and carriage return.
\<close>

definition is_ws :: "char \<Rightarrow> bool" where
  "is_ws c = (c = CHR '' '' \<or> c = CHR 0x09 \<or> c = CHR 0x0A \<or> c = CHR 0x0D)"

definition skip_ws :: "string \<Rightarrow> string" where
  "skip_ws s = dropWhile is_ws s"

definition is_digit :: "char \<Rightarrow> bool" where
  "is_digit c = (48 \<le> (of_char c :: nat) \<and> (of_char c :: nat) \<le> 57)"

definition digit_val :: "char \<Rightarrow> nat" where
  "digit_val c = of_char c - 48"

definition nat_of_digits :: "string \<Rightarrow> nat" where
  "nat_of_digits ds = foldl (\<lambda>a c. 10 * a + digit_val c) 0 ds"

text \<open>
  The string scanner, called after the opening quote, in strict mode: a control character
  ends the scan with an error, a backslash starts one of the eight simple escapes or
  \<open>\\u\<close> with four hexadecimal digits. A code point from 256 on has no character in this
  model, and the text is reported as not decodable.
\<close>

definition hex_val :: "char \<Rightarrow> nat option" where
  "hex_val c =
     (let n = (of_char c :: nat) in
      if 48 \<le> n \<and> n \<le> 57 then Some (n - 48)
      else if 97 \<le> n \<and> n \<le> 102 then Some (n - 87)
      else if 65 \<le> n \<and> n \<le> 70 then Some (n - 55)
      else None)"

definition decode_uXXXX :: "char \<Rightarrow> char \<Rightarrow> char \<Rightarrow> char \<Rightarrow> nat option" where
  "decode_uXXXX a b c d =
     (case (hex_val a, hex_val b, hex_val c, hex_val d) of
        (Some x, Some y, Some z, Some w) \<Rightarrow> Some (4096 * x + 256 * y + 16 * z + w)
      | _ \<Rightarrow> None)"

definition backslash :: "char \<Rightarrow> char option" where
  "backslash e =
     (if e = CHR 0x22 then Some (CHR 0x22)
      else if e = CHR 0x5C then Some (CHR 0x5C)
      else if e = CHR ''/'' then Some (CHR ''/'')
      else if e = CHR ''b'' then Some (CHR 0x08)
      else if e = CHR ''f'' then Some (CHR 0x0C)
      else if e = CHR ''n'' then Some (CHR 0x0A)
      else if e = CHR ''r'' then Some (CHR 0x0D)
      else if e = CHR ''t'' then Some (CHR 0x09)
      else None)"

fun scanstring :: "string \<Rightarrow> (string \<times> string) option" where
  "scanstring [] = None"
| "scanstring (c # r) =
     (if c = CHR 0x22 then Some ([], r)
      else if c = CHR 0x5C then
        (case r of
           [] \<Rightarrow> None
         | e # r' \<Rightarrow>
             if e = CHR ''u'' then
               (case r' of
                  a # b # c' # d # r'' \<Rightarrow>
                    (case decode_uXXXX a b c' d of
                       None \<Rightarrow> None
                     | Some uni \<Rightarrow>
                         if uni < 256 then
                           (case scanstring r'' of
                              None \<Rightarrow> None
                            | Some (str, rest) \<Rightarrow> Some (char_of uni # str, rest))
                         else None)
                | _ \<Rightarrow> None)
             else
               (case backslash e of
                  None \<Rightarrow> None
                | Some ch \<Rightarrow>
                    (case scanstring r' of
                       None \<Rightarrow> None
                     | Some (str, rest) \<Rightarrow> Some (ch # str, rest))))
      else if (of_char c :: nat) < 32 then None
      else
        (case scanstring r of
           None \<Rightarrow> None
         | Some (str, rest) \<Rightarrow> Some (c # str, rest)))"

text \<open>
  The number pattern \<open>(-?(?:0|[1-9][0-9]*))(\\.[0-9]+)?([eE][-+]?[0-9]+)?\<close>: an integer part, an
  optional fraction, an optional exponent. Without fraction and exponent the number is an
  \<open>int\<close>, otherwise a \<open>float\<close>, here the decimal without trailing zeros.
\<close>

function normalize_dec :: "nat \<Rightarrow> int \<Rightarrow> nat \<times> int" where
  "normalize_dec m e =
     (if m = 0 then (0, 0)
      else if m mod 10 = 0 then normalize_dec (m div 10) (e + 1)
      else (m, e))"
  by pat_completeness auto
termination
  by (relation "measure (\<lambda>(m, e). m)") auto

declare normalize_dec.simps [simp del]

definition match_int_part :: "string \<Rightarrow> (string \<times> string) option" where
  "match_int_part s =
     (case s of
        [] \<Rightarrow> None
      | c # r \<Rightarrow>
          if c = CHR ''0'' then Some ([c], r)
          else if is_digit c then Some (takeWhile is_digit s, dropWhile is_digit s)
          else None)"

definition match_frac :: "string \<Rightarrow> string \<times> string" where
  "match_frac s =
     (case s of
        p # d # r \<Rightarrow>
          if p = CHR ''.'' \<and> is_digit d
          then (takeWhile is_digit (d # r), dropWhile is_digit (d # r))
          else ([], s)
      | _ \<Rightarrow> ([], s))"

definition match_exp :: "string \<Rightarrow> int option \<times> string" where
  "match_exp s =
     (case s of
        [] \<Rightarrow> (None, s)
      | c # r \<Rightarrow>
          if c = CHR ''e'' \<or> c = CHR ''E'' then
            (let neg = (case r of sg # _ \<Rightarrow> sg = CHR ''-'' | [] \<Rightarrow> False);
                 r' = (case r of sg # t \<Rightarrow> if sg = CHR ''-'' \<or> sg = CHR ''+'' then t else r
                       | [] \<Rightarrow> r)
             in case r' of
                  [] \<Rightarrow> (None, s)
                | d # _ \<Rightarrow>
                    if is_digit d then
                      (Some (if neg then - int (nat_of_digits (takeWhile is_digit r'))
                             else int (nat_of_digits (takeWhile is_digit r'))),
                       dropWhile is_digit r')
                    else (None, s))
          else (None, s))"

definition float_of_parts :: "bool \<Rightarrow> string \<Rightarrow> string \<Rightarrow> int \<Rightarrow> pyfloat" where
  "float_of_parts neg ip frac ex =
     (case normalize_dec (nat_of_digits (ip @ frac)) (ex - int (length frac)) of
        (m, e) \<Rightarrow> Finite neg m e)"

definition match_number :: "string \<Rightarrow> (json \<times> string) option" where
  "match_number s =
     (let neg = (case s of c # _ \<Rightarrow> c = CHR ''-'' | [] \<Rightarrow> False);
          s1 = (if neg then drop 1 s else s)
      in case match_int_part s1 of
           None \<Rightarrow> None
         | Some (ip, s2) \<Rightarrow>
             (case match_frac s2 of
                (frac, s3) \<Rightarrow>
                  (case match_exp s3 of
                     (ex, s4) \<Rightarrow>
                       if frac = [] \<and> ex = None then
                         Some (JInt (if neg then - int (nat_of_digits ip)
                                     else int (nat_of_digits ip)), s4)
                       else
                         Some (JFloat (float_of_parts neg ip frac
                                         (case ex of None \<Rightarrow> 0 | Some x \<Rightarrow> x)), s4))))"

text \<open>
  What the scanner tries when the text starts neither a string, an object nor an array, in
  the scanner's order: the three literals, a number, the three constants beyond JSON.
\<close>

definition scan_constant :: "string \<Rightarrow> (json \<times> string) option" where
  "scan_constant s =
     (if take 4 s = ''null'' then Some (JNull, drop 4 s)
      else if take 4 s = ''true'' then Some (JBool True, drop 4 s)
      else if take 5 s = ''false'' then Some (JBool False, drop 5 s)
      else
        (case match_number s of
           Some res \<Rightarrow> Some res
         | None \<Rightarrow>
             if take 3 s = ''NaN'' then Some (JFloat NaN, drop 3 s)
             else if take 8 s = ''Infinity'' then Some (JFloat (Inf False), drop 8 s)
             else if take 9 s = ''-Infinity'' then Some (JFloat (Inf True), drop 9 s)
             else None))"

text \<open>
  The pairs of an object are made a \<open>dict\<close>: a key that comes again keeps its place and
  takes the later value.
\<close>

definition dict_set :: "(string \<times> json) list \<Rightarrow> string \<Rightarrow> json \<Rightarrow> (string \<times> json) list" where
  "dict_set d k v =
     (if k \<in> set (map fst d) then map (\<lambda>kv. if fst kv = k then (k, v) else kv) d
      else d @ [(k, v)])"

definition dict_of_pairs :: "(string \<times> json) list \<Rightarrow> (string \<times> json) list" where
  "dict_of_pairs ps = foldl (\<lambda>d kv. dict_set d (fst kv) (snd kv)) [] ps"

text \<open>
  The scanner proper, with the array and the object loops. The first argument bounds the
  calls still allowed; \<open>json_loads\<close> starts with the length of the text, and every call
  that the scanner makes on the way into a value follows a character it has consumed.
\<close>

fun scan_once :: "nat \<Rightarrow> string \<Rightarrow> (json \<times> string) option"
  and parse_array_items :: "nat \<Rightarrow> string \<Rightarrow> (json list \<times> string) option"
  and parse_object_items :: "nat \<Rightarrow> string \<Rightarrow> ((string \<times> json) list \<times> string) option" where
  "scan_once 0 s = None"
| "scan_once (Suc n) s =
     (case s of
        [] \<Rightarrow> None
      | c # r \<Rightarrow>
          if c = CHR 0x22 then
            (case scanstring r of
               None \<Rightarrow> None
             | Some (str, rest) \<Rightarrow> Some (JStr str, rest))
          else if c = CHR ''{'' then
            (case skip_ws r of
               [] \<Rightarrow> None
             | d # r' \<Rightarrow>
                 if d = CHR ''}'' then Some (JObj [], r')
                 else
                   (case parse_object_items n (d # r') of
                      None \<Rightarrow> None
                    | Some (ps, rest) \<Rightarrow> Some (JObj (dict_of_pairs ps), rest)))
          else if c = CHR ''['' then
            (case skip_ws r of
               [] \<Rightarrow> None
             | d # r' \<Rightarrow>
                 if d = CHR '']'' then Some (JArr [], r')
                 else
                   (case parse_array_items n (d # r') of
                      None \<Rightarrow> None
                    | Some (vs, rest) \<Rightarrow> Some (JArr vs, rest)))
          else scan_constant s)"
| "parse_array_items 0 s = None"
| "parse_array_items (Suc n) s =
     (case scan_once n s of
        None \<Rightarrow> None
      | Some (v, r) \<Rightarrow>
          (case skip_ws r of
             [] \<Rightarrow> None
           | c # r' \<Rightarrow>
               if c = CHR '']'' then Some ([v], r')
               else if c = CHR '','' then
                 (case parse_array_items n (skip_ws r') of
                    None \<Rightarrow> None
                  | Some (vs, rest) \<Rightarrow> Some (v # vs, rest))
               else None))"
| "parse_object_items 0 s = None"
| "parse_object_items (Suc n) s =
     (case s of
        [] \<Rightarrow> None
      | q # r \<Rightarrow>
          if q \<noteq> CHR 0x22 then None
          else
            (case scanstring r of
               None \<Rightarrow> None
             | Some (key, r1) \<Rightarrow>
                 (case skip_ws r1 of
                    [] \<Rightarrow> None
                  | c # r2 \<Rightarrow>
                      if c \<noteq> CHR '':'' then None
                      else
                        (case scan_once n (skip_ws r2) of
                           None \<Rightarrow> None
                         | Some (v, r3) \<Rightarrow>
                             (case skip_ws r3 of
                                [] \<Rightarrow> None
                              | d # r4 \<Rightarrow>
                                  if d = CHR ''}'' then Some ([(key, v)], r4)
                                  else if d = CHR '','' then
                                    (case parse_object_items n (skip_ws r4) of
                                       None \<Rightarrow> None
                                     | Some (ps, rest) \<Rightarrow> Some ((key, v) # ps, rest))
                                  else None)))))"

text \<open>\<open>loads\<close>: white space, one value, white space, and nothing after it.\<close>

definition json_loads :: "string \<Rightarrow> json option" where
  "json_loads s =
     (case scan_once (length s) (skip_ws s) of
        None \<Rightarrow> None
      | Some (v, r) \<Rightarrow> if skip_ws r = [] then Some v else None)"

section \<open>The HTTP collaborator\<close>

text \<open>
  The exceptions that the request, the status check and the body decoding can raise; all
  of them are subclasses of Python's \<open>Exception\<close>.
\<close>

datatype exn =
    ConnectError string
  | TimeoutException string
  | HTTPStatusError nat
  | JSONDecodeError
  | OtherException string

record request =
  url :: string
  headers :: "(string \<times> string) list"
  timeout :: pyfloat

record response =
  status_code :: nat
  body :: string

type_synonym network = "request \<Rightarrow> exn + response"

datatype log_level = DEBUG | INFO | WARNING | ERROR | CRITICAL

record log_record =
  levelname :: log_level
  msg :: string
  arg :: exn

text \<open>
  The status check of \<open>httpx\<close> raises unless the status is a success (2xx);
  \<open>response.json()\<close> decodes the body or raises.
\<close>

definition raise_for_status :: "response \<Rightarrow> exn + response" where
  "raise_for_status r =
     (if 200 \<le> status_code r \<and> status_code r \<le> 299 then Inr r
      else Inl (HTTPStatusError (status_code r)))"

definition response_json :: "response \<Rightarrow> exn + json" where
  "response_json r =
     (case json_loads (body r) of None \<Rightarrow> Inl JSONDecodeError | Some v \<Rightarrow> Inr v)"

section \<open>The server\<close>

definition WEATHER_OPENMETEO_API_BASE :: string where
  "WEATHER_OPENMETEO_API_BASE = ''https://api.open-meteo.com/v1''"

definition GEOCODING_OPENMATEO_API_BASE :: string where
  "GEOCODING_OPENMATEO_API_BASE = ''https://geocoding-api.open-meteo.com/v1''"

definition USER_AGENT :: string where
  "USER_AGENT = ''weather-app/1.0''"

text \<open>
  \<open>make_openmeteo_request\<close>: the body of the \<open>try\<close> is the sequence request, status
  check, decoding; the \<open>except Exception\<close> clause logs and returns \<open>None\<close>, which is the
  value \<open>JNull\<close>. The result is a sum so that an escaping exception would be visible as
  \<open>Inl\<close>; the log is passed in and returned.
\<close>

definition make_openmeteo_request ::
  "network \<Rightarrow> string \<Rightarrow> log_record list \<Rightarrow> (exn + json) \<times> log_record list" where
  "make_openmeteo_request net u log =
     (let hdrs = [(''User-Agent'', USER_AGENT), (''Accept'', ''application/json'')] in
      case (case net \<lparr>url = u, headers = hdrs, timeout = Finite False 3 1\<rparr> of
              Inl e \<Rightarrow> Inl e
            | Inr resp \<Rightarrow>
                (case raise_for_status resp of
                   Inl e \<Rightarrow> Inl e
                 | Inr resp' \<Rightarrow> response_json resp')) of
        Inr v \<Rightarrow> (Inr v, log)
      | Inl e \<Rightarrow>
          (Inr JNull,
           log @ [\<lparr>levelname = ERROR, msg = ''Open-Meteo request failed: %s'', arg = e\<rparr>]))"

text \<open>Python's truth value of a decoded JSON value, as \<open>if not data\<close> tests it.\<close>

fun truthy :: "json \<Rightarrow> bool" where
  "truthy JNull = False"
| "truthy (JBool b) = b"
| "truthy (JInt i) = (i \<noteq> 0)"
| "truthy (JFloat (Finite neg m e)) = (m \<noteq> 0)"
| "truthy (JFloat (Inf neg)) = True"
| "truthy (JFloat NaN) = True"
| "truthy (JStr s) = (s \<noteq> [])"
| "truthy (JArr vs) = (vs \<noteq> [])"
| "truthy (JObj ps) = (ps \<noteq> [])"

text \<open>
  A numeric argument annotated \<open>float\<close>: a caller may pass an \<open>int\<close>, and the f-string
  formats each with its own \<open>str\<close>.
\<close>

datatype pynum = PyInt int | PyFloat pyfloat

fun format_num :: "pynum \<Rightarrow> string" where
  "format_num (PyInt i) = str_int i"
| "format_num (PyFloat f) = float_repr f"

definition get_current_weather_url :: "pynum \<Rightarrow> pynum \<Rightarrow> string" where
  "get_current_weather_url latitude longitude =
     WEATHER_OPENMETEO_API_BASE @ ''/forecast?latitude='' @ format_num latitude @
     ''&longitude='' @ format_num longitude @
     ''&current=temperature_2m,is_day,showers,cloud_cover,wind_speed_10m,wind_direction_10m,pressure_msl,snowfall,precipitation,relative_humidity_2m,apparent_temperature,rain,weather_code,surface_pressure,wind_gusts_10m''"

definition get_current_weather ::
  "network \<Rightarrow> pynum \<Rightarrow> pynum \<Rightarrow> log_record list \<Rightarrow> (exn + string) \<times> log_record list" where
  "get_current_weather net latitude longitude log =
     (case make_openmeteo_request net (get_current_weather_url latitude longitude) log of
        (Inl e, log') \<Rightarrow> (Inl e, log')
      | (Inr data, log') \<Rightarrow>
          if \<not> truthy data
          then (Inr ''Unable to fetch current weather data for this location.'', log')
          else (Inr (json_dumps data), log'))"

text \<open>An omitted \<open>days\<close> (\<open>None\<close> here) takes the default of the signature.\<close>

definition get_forecast_url :: "pynum \<Rightarrow> pynum \<Rightarrow> int option \<Rightarrow> string" where
  "get_forecast_url latitude longitude days_arg =
     (let days = (case days_arg of None \<Rightarrow> 7 | Some d \<Rightarrow> d) in
      WEATHER_OPENMETEO_API_BASE @ ''/forecast?latitude='' @ format_num latitude @
      ''&longitude='' @ format_num longitude @
      ''&forecast_days='' @ str_int days @
      ''&daily=temperature_2m_max,temperature_2m_min,precipitation_sum,rain_sum,snowfall_sum,wind_speed_10m_max,wind_gusts_10m_max,wind_direction_10m_dominant,weathercode,sunrise,sunset&timezone=auto'')"

definition get_forecast ::
  "network \<Rightarrow> pynum \<Rightarrow> pynum \<Rightarrow> int option \<Rightarrow> log_record list \<Rightarrow>
   (exn + string) \<times> log_record list" where
  "get_forecast net latitude longitude days_arg log =
     (case make_openmeteo_request net (get_forecast_url latitude longitude days_arg) log of
        (Inl e, log') \<Rightarrow> (Inl e, log')
      | (Inr data, log') \<Rightarrow>
          if \<not> truthy data
          then (Inr ''Unable to fetch forecasted weather data for this location.'', log')
          else (Inr (json_dumps data), log'))"

text \<open>An omitted \<open>count\<close> (\<open>None\<close> here) takes the default of the signature.\<close>

definition get_location_url :: "string \<Rightarrow> int option \<Rightarrow> string" where
  "get_location_url search_term count_arg =
     (let count = (case count_arg of None \<Rightarrow> 10 | Some c \<Rightarrow> c) in
      GEOCODING_OPENMATEO_API_BASE @ ''/search?name='' @ search_term @
      ''&count='' @ str_int count)"

definition get_location ::
  "network \<Rightarrow> string \<Rightarrow> int option \<Rightarrow> log_record list \<Rightarrow>
   (exn + string) \<times> log_record list" where
  "get_location net search_term count_arg log =
     (case make_openmeteo_request net (get_location_url search_term count_arg) log of
        (Inl e, log') \<Rightarrow> (Inl e, log')
      | (Inr data, log') \<Rightarrow>
          if \<not> truthy data
          then (Inr (''Unable to fetch location data for '' @ search_term), log')
          else (Inr (json_dumps data), log'))"

section \<open>Observing a URL and stubbing the upstream\<close>

text \<open>
  The claims speak of what a URL contains; these functions read a URL the way its
  receiver does: the path before the first \<open>?\<close>, the query split at \<open>&\<close>, each parameter
  split at its first \<open>=\<close>, a field list split at commas.
\<close>

fun split_on :: "char \<Rightarrow> string \<Rightarrow> string list" where
  "split_on c [] = [[]]"
| "split_on c (x # xs) =
     (if x = c then [] # split_on c xs
      else (case split_on c xs of [] \<Rightarrow> [[x]] | y # ys \<Rightarrow> (x # y) # ys))"

definition url_path :: "string \<Rightarrow> string" where
  "url_path u = takeWhile (\<lambda>c. c \<noteq> CHR ''?'') u"

definition key_value :: "string \<Rightarrow> string \<times> string" where
  "key_value kv =
     (takeWhile (\<lambda>c. c \<noteq> CHR ''='') kv, drop 1 (dropWhile (\<lambda>c. c \<noteq> CHR ''='') kv))"

definition url_query :: "string \<Rightarrow> (string \<times> string) list" where
  "url_query u =
     (case dropWhile (\<lambda>c. c \<noteq> CHR ''?'') u of
        [] \<Rightarrow> []
      | q # qs \<Rightarrow> map key_value (split_on CHR ''&'' qs))"

definition query_fields :: "string \<Rightarrow> string \<Rightarrow> string list" where
  "query_fields name u =
     (case map_of (url_query u) name of None \<Rightarrow> [] | Some v \<Rightarrow> split_on CHR '','' v)"

text \<open>Stubbed upstreams: one that answers every request, one that fails every request.\<close>

definition stub_response :: "nat \<Rightarrow> string \<Rightarrow> network" where
  "stub_response code b req = Inr \<lparr>status_code = code, body = b\<rparr>"

definition stub_failure :: "exn \<Rightarrow> network" where
  "stub_failure e req = Inl e"

text \<open>The body of the stubbed answer \<open>{"current": {"temperature_2m": 18.3}}\<close>.\<close>

definition scenario_body :: string where
  "scenario_body =
     ''{'' @ [CHR 0x22] @ ''current'' @ [CHR 0x22] @ '': {'' @ [CHR 0x22] @ ''temperature_2m'' @ [CHR 0x22] @ '': 18.3}}''"

text \<open>
  The values that \<open>json.loads\<close> returns: the keys of an object are distinct (a Python
  \<open>dict\<close>), and a finite float carries the digits its \<open>repr\<close> prints, without a trailing
  zero.
\<close>

fun wf_float :: "pyfloat \<Rightarrow> bool" where
  "wf_float (Finite neg m e) = (if m = 0 then e = 0 else m mod 10 \<noteq> 0)"
| "wf_float (Inf neg) = True"
| "wf_float NaN = True"

fun wf_json :: "json \<Rightarrow> bool"
  and wf_list :: "json list \<Rightarrow> bool"
  and wf_dict :: "(string \<times> json) list \<Rightarrow> bool" where
  "wf_json JNull = True"
| "wf_json (JBool b) = True"
| "wf_json (JInt i) = True"
| "wf_json (JFloat f) = wf_float f"
| "wf_json (JStr s) = True"
| "wf_json (JArr vs) = wf_list vs"
| "wf_json (JObj ps) = (distinct (map fst ps) \<and> wf_dict ps)"
| "wf_list [] = True"
| "wf_list (v # vs) = (wf_json v \<and> wf_list vs)"
| "wf_dict [] = True"
| "wf_dict ((k, v) # ps) = (wf_json v \<and> wf_dict ps)"

text \<open>
  The values of strict JSON: no \<open>NaN\<close> and no infinity, which \<open>json.loads\<close> accepts beyond
  the JSON grammar (and Python's \<open>==\<close> does not hold between \<open>NaN\<close> and itself).
\<close>

fun is_finite :: "pyfloat \<Rightarrow> bool" where
  "is_finite (Finite neg m e) = True"
| "is_finite (Inf neg) = False"
| "is_finite NaN = False"

fun strict_json :: "json \<Rightarrow> bool"
  and strict_list :: "json list \<Rightarrow> bool"
  and strict_dict :: "(string \<times> json) list \<Rightarrow> bool" where
  "strict_json JNull = True"
| "strict_json (JBool b) = True"
| "strict_json (JInt i) = True"
| "strict_json (JFloat f) = is_finite f"
| "strict_json (JStr s) = True"
| "strict_json (JArr vs) = strict_list vs"
| "strict_json (JObj ps) = strict_dict ps"
| "strict_list [] = True"
| "strict_list (v # vs) = (strict_json v \<and> strict_list vs)"
| "strict_dict [] = True"
| "strict_dict ((k, v) # ps) = (strict_json v \<and> strict_dict ps)"




section \<open>Digits and separators\<close>

lemma digit_char_simps:
  "digit_char 0 = CHR ''0''" "digit_char 1 = CHR ''1''" "digit_char 2 = CHR ''2''"
  "digit_char 3 = CHR ''3''" "digit_char 4 = CHR ''4''" "digit_char 5 = CHR ''5''"
  "digit_char 6 = CHR ''6''" "digit_char 7 = CHR ''7''" "digit_char 8 = CHR ''8''"
  "digit_char 9 = CHR ''9''" "digit_char (Suc 0) = CHR ''1''"
  by code_simp+

lemma of_char_digit_char: "d < 10 \<Longrightarrow> (of_char (digit_char d) :: nat) = 48 + d"
  by (simp add: digit_char_def)

lemma is_digit_digit_char: "d < 10 \<Longrightarrow> is_digit (digit_char d)"
  by (simp add: is_digit_def of_char_digit_char)

lemma str_nat_digits: "c \<in> set (str_nat n) \<Longrightarrow> is_digit c"
proof (induction n arbitrary: c rule: str_nat.induct)
  case (1 n)
  show ?case
  proof (cases "n < 10")
    case True
    with "1.prems" show ?thesis
      by (simp add: str_nat.simps [of n] is_digit_digit_char)
  next
    case False
    with "1.prems" have "c \<in> set (str_nat (n div 10)) \<or> c = digit_char (n mod 10)"
      by (auto simp: str_nat.simps [of n])
    then show ?thesis
      using "1.IH" False by (auto simp: is_digit_digit_char)
  qed
qed

lemma amp_not_digit: "\<not> is_digit CHR ''&''" "\<not> is_digit CHR ''-''" "\<not> is_digit CHR ''.''"
  "\<not> is_digit CHR ''e''" "\<not> is_digit CHR ''+''"
  by (simp_all add: is_digit_def)

lemma amp_notin_str_nat: "CHR ''&'' \<notin> set (str_nat n)"
  using str_nat_digits amp_not_digit(1) by blast

lemma amp_notin_str_int: "CHR ''&'' \<notin> set (str_int i)"
  by (simp add: str_int_def amp_notin_str_nat)

lemma amp_notin_exp_str: "CHR ''&'' \<notin> set (exp_str x)"
  by (simp add: exp_str_def amp_notin_str_nat)

lemma notin_take: "c \<notin> set xs \<Longrightarrow> c \<notin> set (take k xs)"
  by (meson in_set_takeD)

lemma notin_drop: "c \<notin> set xs \<Longrightarrow> c \<notin> set (drop k xs)"
  by (meson in_set_dropD)

lemma amp_notin_float_repr_finite: "CHR ''&'' \<notin> set (float_repr_finite m e)"
  by (simp add: float_repr_finite_def Let_def amp_notin_str_nat amp_notin_exp_str
      notin_take notin_drop)

lemma amp_notin_float_repr: "CHR ''&'' \<notin> set (float_repr f)"
  by (cases f) (simp_all add: amp_notin_float_repr_finite)

lemma amp_notin_format_num: "CHR ''&'' \<notin> set (format_num x)"
  by (cases x) (simp_all add: amp_notin_str_int amp_notin_float_repr)

lemma split_on_append:
  "c \<notin> set a \<Longrightarrow> split_on c (a @ c # r) = a # split_on c r"
  by (induction a) auto

lemma split_on_none: "c \<notin> set a \<Longrightarrow> split_on c a = [a]"
  by (induction a) auto


lemma url_query_get_forecast_url:
  "url_query (get_forecast_url lat lon days_arg) =
     [(''latitude'', format_num lat), (''longitude'', format_num lon),
      (''forecast_days'', str_int (case days_arg of None \<Rightarrow> 7 | Some d \<Rightarrow> d)),
      (''daily'', ''temperature_2m_max,temperature_2m_min,precipitation_sum,rain_sum,snowfall_sum,wind_speed_10m_max,wind_gusts_10m_max,wind_direction_10m_dominant,weathercode,sunrise,sunset''),
      (''timezone'', ''auto'')]"
proof -
  let ?d = "case days_arg of None \<Rightarrow> 7 | Some d \<Rightarrow> d"
  have q: "dropWhile (\<lambda>c. c \<noteq> CHR ''?'') (get_forecast_url lat lon days_arg) =
      CHR ''?'' # (''latitude='' @ format_num lat) @ CHR ''&'' # (''longitude='' @ format_num lon) @
      CHR ''&'' # (''forecast_days='' @ str_int ?d) @ CHR ''&'' #
      ''daily=temperature_2m_max,temperature_2m_min,precipitation_sum,rain_sum,snowfall_sum,wind_speed_10m_max,wind_gusts_10m_max,wind_direction_10m_dominant,weathercode,sunrise,sunset&timezone=auto''"
    by (simp add: get_forecast_url_def WEATHER_OPENMETEO_API_BASE_def Let_def)
  have a1: "CHR ''&'' \<notin> set (''latitude='' @ format_num lat)"
    by (simp add: amp_notin_format_num)
  have a2: "CHR ''&'' \<notin> set (''longitude='' @ format_num lon)"
    by (simp add: amp_notin_format_num)
  have a3: "CHR ''&'' \<notin> set (''forecast_days='' @ str_int ?d)"
    by (simp add: amp_notin_str_int)
  have t: "split_on CHR ''&'' ''daily=temperature_2m_max,temperature_2m_min,precipitation_sum,rain_sum,snowfall_sum,wind_speed_10m_max,wind_gusts_10m_max,wind_direction_10m_dominant,weathercode,sunrise,sunset&timezone=auto'' =
     [''daily=temperature_2m_max,temperature_2m_min,precipitation_sum,rain_sum,snowfall_sum,wind_speed_10m_max,wind_gusts_10m_max,wind_direction_10m_dominant,weathercode,sunrise,sunset'', ''timezone=auto'']"
    by simp
  show ?thesis
    unfolding url_query_def q
    by (simp only: list.case split_on_append [OF a1] split_on_append [OF a2]
        split_on_append [OF a3] t) (simp add: key_value_def)
qed


lemma url_query_get_current_weather_url:
  "url_query (get_current_weather_url lat lon) =
     [(''latitude'', format_num lat), (''longitude'', format_num lon),
      (''current'', ''temperature_2m,is_day,showers,cloud_cover,wind_speed_10m,wind_direction_10m,pressure_msl,snowfall,precipitation,relative_humidity_2m,apparent_temperature,rain,weather_code,surface_pressure,wind_gusts_10m'')]"
proof -
  have q: "dropWhile (\<lambda>c. c \<noteq> CHR ''?'') (get_current_weather_url lat lon) =
      CHR ''?'' # (''latitude='' @ format_num lat) @ CHR ''&'' # (''longitude='' @ format_num lon) @
      CHR ''&'' #
      ''current=temperature_2m,is_day,showers,cloud_cover,wind_speed_10m,wind_direction_10m,pressure_msl,snowfall,precipitation,relative_humidity_2m,apparent_temperature,rain,weather_code,surface_pressure,wind_gusts_10m''"
    by (simp add: get_current_weather_url_def WEATHER_OPENMETEO_API_BASE_def)
  have a1: "CHR ''&'' \<notin> set (''latitude='' @ format_num lat)"
    by (simp add: amp_notin_format_num)
  have a2: "CHR ''&'' \<notin> set (''longitude='' @ format_num lon)"
    by (simp add: amp_notin_format_num)
  have t: "split_on CHR ''&'' ''current=temperature_2m,is_day,showers,cloud_cover,wind_speed_10m,wind_direction_10m,pressure_msl,snowfall,precipitation,relative_humidity_2m,apparent_temperature,rain,weather_code,surface_pressure,wind_gusts_10m'' =
     [''current=temperature_2m,is_day,showers,cloud_cover,wind_speed_10m,wind_direction_10m,pressure_msl,snowfall,precipitation,relative_humidity_2m,apparent_temperature,rain,weather_code,surface_pressure,wind_gusts_10m'']"
    by simp
  show ?thesis
    unfolding url_query_def q
    by (simp only: list.case split_on_append [OF a1] split_on_append [OF a2] t)
      (simp add: key_value_def)
qed

lemma url_path_forecast:
  "url_path (WEATHER_OPENMETEO_API_BASE @ ''/forecast?'' @ rest) =
     WEATHER_OPENMETEO_API_BASE @ ''/forecast''"
  by (simp add: url_path_def WEATHER_OPENMETEO_API_BASE_def)

text \<open>
  Claim C4, as amended: for all latitude, longitude and days, the URL built by
  \<open>get_forecast\<close> has the forecast base path, and its query holds \<open>forecast_days=<days>\<close>,
  \<open>timezone=auto\<close> and a \<open>daily\<close> parameter that is exactly the fixed list of eleven daily
  fields.
\<close>

theorem forecast_url_contents:
  "url_path (get_forecast_url lat lon (Some days)) = WEATHER_OPENMETEO_API_BASE @ ''/forecast'' \<and>
   map fst (url_query (get_forecast_url lat lon (Some days))) =
     [''latitude'', ''longitude'', ''forecast_days'', ''daily'', ''timezone''] \<and>
   map_of (url_query (get_forecast_url lat lon (Some days))) ''forecast_days'' = Some (str_int days) \<and>
   map_of (url_query (get_forecast_url lat lon (Some days))) ''timezone'' = Some ''auto'' \<and>
   query_fields ''daily'' (get_forecast_url lat lon (Some days)) =
     [''temperature_2m_max'', ''temperature_2m_min'', ''precipitation_sum'', ''rain_sum'',
      ''snowfall_sum'', ''wind_speed_10m_max'', ''wind_gusts_10m_max'',
      ''wind_direction_10m_dominant'', ''weathercode'', ''sunrise'', ''sunset''] \<and>
   length (query_fields ''daily'' (get_forecast_url lat lon (Some days))) = 11"
proof -
  have p: "url_path (get_forecast_url lat lon (Some days)) =
      WEATHER_OPENMETEO_API_BASE @ ''/forecast''"
    using url_path_forecast [of "''latitude='' @ format_num lat @ ''&longitude='' @ format_num lon @
      ''&forecast_days='' @ str_int days @
      ''&daily=temperature_2m_max,temperature_2m_min,precipitation_sum,rain_sum,snowfall_sum,wind_speed_10m_max,wind_gusts_10m_max,wind_direction_10m_dominant,weathercode,sunrise,sunset&timezone=auto''"]
    by (simp add: get_forecast_url_def)
  show ?thesis
    by (simp add: p url_query_get_forecast_url query_fields_def)
qed

text \<open>
  Claim C4 as stated speaks of a 10-field daily list; at latitude 0, longitude 0 and 7 days
  the \<open>daily\<close> parameter does not have ten fields.
\<close>

theorem forecast_daily_fields_counterexample:
  "length (query_fields ''daily'' (get_forecast_url (PyInt 0) (PyInt 0) (Some 7))) \<noteq> 10"
  by (simp add: url_query_get_forecast_url query_fields_def)

text \<open>
  Claim C5: for all latitude and longitude, the URL built by \<open>get_current_weather\<close> has the
  forecast base path, and its \<open>current\<close> parameter is exactly the fixed list of fifteen
  fields, in the order of the source.
\<close>

theorem current_weather_url_contents:
  "url_path (get_current_weather_url lat lon) = WEATHER_OPENMETEO_API_BASE @ ''/forecast'' \<and>
   map fst (url_query (get_current_weather_url lat lon)) = [''latitude'', ''longitude'', ''current''] \<and>
   query_fields ''current'' (get_current_weather_url lat lon) =
     [''temperature_2m'', ''is_day'', ''showers'', ''cloud_cover'', ''wind_speed_10m'',
      ''wind_direction_10m'', ''pressure_msl'', ''snowfall'', ''precipitation'',
      ''relative_humidity_2m'', ''apparent_temperature'', ''rain'', ''weather_code'',
      ''surface_pressure'', ''wind_gusts_10m''] \<and>
   length (query_fields ''current'' (get_current_weather_url lat lon)) = 15 \<and>
   distinct (query_fields ''current'' (get_current_weather_url lat lon))"
proof -
  have p: "url_path (get_current_weather_url lat lon) = WEATHER_OPENMETEO_API_BASE @ ''/forecast''"
    using url_path_forecast [of "''latitude='' @ format_num lat @ ''&longitude='' @ format_num lon @
      ''&current=temperature_2m,is_day,showers,cloud_cover,wind_speed_10m,wind_direction_10m,pressure_msl,snowfall,precipitation,relative_humidity_2m,apparent_temperature,rain,weather_code,surface_pressure,wind_gusts_10m''"]
    by (simp add: get_current_weather_url_def)
  show ?thesis
    by (simp add: p url_query_get_current_weather_url query_fields_def)
qed

text \<open>
  Claim C6: for every search term and count, the URL built by \<open>get_location\<close> is the literal
  concatenation of the geocoding base, \<open>/search?name=\<close>, the search term, \<open>&count=\<close> and
  the count; nothing is encoded, also when the term has spaces or reserved characters.
\<close>

theorem location_url_verbatim:
  "get_location_url search_term (Some count) =
     GEOCODING_OPENMATEO_API_BASE @ ''/search?name='' @ search_term @ ''&count='' @ str_int count \<and>
   get_location_url ''New York & Co?'' (Some 5) =
     ''https://geocoding-api.open-meteo.com/v1/search?name=New York & Co?&count=5''"
  by (simp add: get_location_url_def GEOCODING_OPENMATEO_API_BASE_def str_int_def
      str_nat.simps digit_char_simps)


section \<open>Evaluating the decoder and the encoder\<close>

lemmas loads_eval =
  json_loads_def skip_ws_def is_ws_def scan_constant_def match_number_def match_int_part_def
  match_frac_def match_exp_def is_digit_def digit_val_def nat_of_digits_def float_of_parts_def
  normalize_dec.simps dict_of_pairs_def dict_set_def decode_uXXXX_def hex_val_def backslash_def

lemmas dumps_eval =
  encode_basestring_ascii_def escape_char_def float_repr_finite_def str_int_def str_nat.simps
  digit_char_simps exp_str_def Let_def

lemma loads_empty_object: "json_loads ''{}'' = Some (JObj [])"
  by (simp add: loads_eval)


lemma loads_array: "json_loads ''[1]'' = Some (JArr [JInt 1])"
  by (simp add: loads_eval)

lemma loads_scenario:
  "json_loads scenario_body =
     Some (JObj [(''current'', JObj [(''temperature_2m'', JFloat (Finite False 183 (- 1)))])])"
  by (simp add: scenario_body_def loads_eval)

lemma dumps_scenario:
  "json_dumps (JObj [(''current'', JObj [(''temperature_2m'', JFloat (Finite False 183 (- 1)))])]) =
     scenario_body"
  by (simp add: scenario_body_def dumps_eval)

section \<open>The fetcher and the tools\<close>

lemma fetch_transport_error:
  "net \<lparr>url = u, headers = [(''User-Agent'', USER_AGENT), (''Accept'', ''application/json'')],
        timeout = Finite False 3 1\<rparr> = Inl e \<Longrightarrow>
   make_openmeteo_request net u log =
     (Inr JNull,
      log @ [\<lparr>levelname = ERROR, msg = ''Open-Meteo request failed: %s'', arg = e\<rparr>])"
  by (simp add: make_openmeteo_request_def)

lemma fetch_response:
  "net \<lparr>url = u, headers = [(''User-Agent'', USER_AGENT), (''Accept'', ''application/json'')],
        timeout = Finite False 3 1\<rparr> = Inr r \<Longrightarrow>
   make_openmeteo_request net u log =
     (if 200 \<le> status_code r \<and> status_code r \<le> 299 then
        (case json_loads (body r) of
           None \<Rightarrow>
             (Inr JNull,
              log @ [\<lparr>levelname = ERROR, msg = ''Open-Meteo request failed: %s'',
                      arg = JSONDecodeError\<rparr>])
         | Some v \<Rightarrow> (Inr v, log))
      else
        (Inr JNull,
         log @ [\<lparr>levelname = ERROR, msg = ''Open-Meteo request failed: %s'',
                 arg = HTTPStatusError (status_code r)\<rparr>]))"
  by (simp add: make_openmeteo_request_def raise_for_status_def response_json_def
      split: option.splits)


lemma current_weather_result:
  "fst (make_openmeteo_request net (get_current_weather_url lat lon) log) = Inr data \<Longrightarrow>
   fst (get_current_weather net lat lon log) =
     Inr (if truthy data then json_dumps data
          else ''Unable to fetch current weather data for this location.'')"
  by (cases "make_openmeteo_request net (get_current_weather_url lat lon) log")
    (simp add: get_current_weather_def)

lemma forecast_result:
  "fst (make_openmeteo_request net (get_forecast_url lat lon days) log) = Inr data \<Longrightarrow>
   fst (get_forecast net lat lon days log) =
     Inr (if truthy data then json_dumps data
          else ''Unable to fetch forecasted weather data for this location.'')"
  by (cases "make_openmeteo_request net (get_forecast_url lat lon days) log")
    (simp add: get_forecast_def)

lemma location_result:
  "fst (make_openmeteo_request net (get_location_url search_term cnt) log) = Inr data \<Longrightarrow>
   fst (get_location net search_term cnt log) =
     Inr (if truthy data then json_dumps data
          else ''Unable to fetch location data for '' @ search_term)"
  by (cases "make_openmeteo_request net (get_location_url search_term cnt) log")
    (simp add: get_location_def)

text \<open>
  Claim C2: whenever the fetcher returns \<open>None\<close>, each tool returns its own fixed failure
  sentence, the location tool's with the search term appended; \<open>get_location\<close> of
  \<open>Nowhere12345xyz\<close> and 5 under a failing upstream returns exactly
  \<open>Unable to fetch location data for Nowhere12345xyz\<close>.
\<close>

theorem absent_fetch_gives_failure_sentence:
  "(fst (make_openmeteo_request net (get_current_weather_url lat lon) log) = Inr JNull \<longrightarrow>
      fst (get_current_weather net lat lon log) =
        Inr ''Unable to fetch current weather data for this location.'') \<and>
   (fst (make_openmeteo_request net (get_forecast_url lat lon days) log) = Inr JNull \<longrightarrow>
      fst (get_forecast net lat lon days log) =
        Inr ''Unable to fetch forecasted weather data for this location.'') \<and>
   (fst (make_openmeteo_request net (get_location_url search_term cnt) log) = Inr JNull \<longrightarrow>
      fst (get_location net search_term cnt log) =
        Inr (''Unable to fetch location data for '' @ search_term)) \<and>
   fst (get_location (stub_failure e) ''Nowhere12345xyz'' (Some 5) log) =
     Inr ''Unable to fetch location data for Nowhere12345xyz''"
proof -
  have "fst (make_openmeteo_request (stub_failure e) (get_location_url ''Nowhere12345xyz'' (Some 5)) log)
      = Inr JNull"
    by (simp add: fetch_transport_error stub_failure_def)
  then have "fst (get_location (stub_failure e) ''Nowhere12345xyz'' (Some 5) log) =
      Inr ''Unable to fetch location data for Nowhere12345xyz''"
    by (simp add: location_result)
  then show ?thesis
    by (simp add: current_weather_result forecast_result location_result)
qed

theorem absent_fetch_gives_failure_sentence_witness:
  "fst (make_openmeteo_request (stub_failure (ConnectError ''Name or service not known''))
          (get_current_weather_url (PyInt 0) (PyInt 0)) []) = Inr JNull \<and>
   fst (get_current_weather (stub_failure (ConnectError ''Name or service not known''))
          (PyInt 0) (PyInt 0) []) =
     Inr ''Unable to fetch current weather data for this location.'' \<and>
   fst (make_openmeteo_request (stub_failure (ConnectError ''Name or service not known''))
          (get_forecast_url (PyInt 0) (PyInt 0) None) []) = Inr JNull \<and>
   fst (get_forecast (stub_failure (ConnectError ''Name or service not known''))
          (PyInt 0) (PyInt 0) None []) =
     Inr ''Unable to fetch forecasted weather data for this location.'' \<and>
   fst (make_openmeteo_request (stub_failure (ConnectError ''Name or service not known''))
          (get_location_url ''Berlin'' None) []) = Inr JNull \<and>
   fst (get_location (stub_failure (ConnectError ''Name or service not known''))
          ''Berlin'' None []) =
     Inr ''Unable to fetch location data for Berlin''"
  using absent_fetch_gives_failure_sentence
    [of "stub_failure (ConnectError ''Name or service not known'')" "PyInt 0" "PyInt 0" "[]"
      None "''Berlin''" None]
  by (simp add: make_openmeteo_request_def stub_failure_def)




text \<open>
  Claim C10: when the request succeeds and the decoded body is a value that Python counts
  as false, the empty object among them, each tool returns its failure sentence and not
  the serialized body: the tools test the truth value of the data.
\<close>

theorem falsy_body_gives_failure_sentence:
  "(fst (make_openmeteo_request net (get_current_weather_url lat lon) log) = Inr data \<and>
    \<not> truthy data \<longrightarrow>
      fst (get_current_weather net lat lon log) =
        Inr ''Unable to fetch current weather data for this location.'') \<and>
   (fst (make_openmeteo_request net (get_forecast_url lat lon days) log) = Inr data \<and>
    \<not> truthy data \<longrightarrow>
      fst (get_forecast net lat lon days log) =
        Inr ''Unable to fetch forecasted weather data for this location.'') \<and>
   (fst (make_openmeteo_request net (get_location_url search_term cnt) log) = Inr data \<and>
    \<not> truthy data \<longrightarrow>
      fst (get_location net search_term cnt log) =
        Inr (''Unable to fetch location data for '' @ search_term)) \<and>
   make_openmeteo_request (stub_response 200 ''{}'') u log = (Inr (JObj []), log) \<and>
   \<not> truthy (JObj [])"
  by (simp add: current_weather_result forecast_result location_result
      fetch_response [of "stub_response 200 ''{}''" u "\<lparr>status_code = 200, body = ''{}''\<rparr>"]
      stub_response_def loads_empty_object)

theorem falsy_body_gives_failure_sentence_witness:
  "make_openmeteo_request (stub_response 200 ''{}'') (get_current_weather_url (PyInt 0) (PyInt 0)) []
     = (Inr (JObj []), []) \<and>
   fst (get_current_weather (stub_response 200 ''{}'') (PyInt 0) (PyInt 0) []) =
     Inr ''Unable to fetch current weather data for this location.'' \<and>
   fst (get_forecast (stub_response 200 ''{}'') (PyInt 0) (PyInt 0) None []) =
     Inr ''Unable to fetch forecasted weather data for this location.'' \<and>
   fst (get_location (stub_response 200 ''{}'') ''Berlin'' None []) =
     Inr ''Unable to fetch location data for Berlin''"
  using
    falsy_body_gives_failure_sentence
      [of "stub_response 200 ''{}''" "PyInt 0" "PyInt 0" "[]" "JObj []" None "''Berlin''" None]
    falsy_body_gives_failure_sentence
      [of "stub_response 200 ''{}''" "PyInt 0" "PyInt 0" "[]" "JObj []" None "''Berlin''" None
        "get_current_weather_url (PyInt 0) (PyInt 0)"]
    falsy_body_gives_failure_sentence
      [of "stub_response 200 ''{}''" "PyInt 0" "PyInt 0" "[]" "JObj []" None "''Berlin''" None
        "get_forecast_url (PyInt 0) (PyInt 0) None"]
    falsy_body_gives_failure_sentence
      [of "stub_response 200 ''{}''" "PyInt 0" "PyInt 0" "[]" "JObj []" None "''Berlin''" None
        "get_location_url ''Berlin'' None"]
  by simp

text \<open>
  Claim C8, as amended: whenever the fetcher returns data that Python counts as true, the
  tool returns \<open>json.dumps\<close> of that value and nothing else; \<open>get_current_weather\<close> of 52.52
  and 13.405 with the upstream stubbed to answer \<open>{"current": {"temperature_2m": 18.3}}\<close>
  returns that text.
\<close>

theorem truthy_data_is_serialized_verbatim:
  "(fst (make_openmeteo_request net (get_current_weather_url lat lon) log) = Inr data \<and>
    truthy data \<longrightarrow>
      fst (get_current_weather net lat lon log) = Inr (json_dumps data)) \<and>
   (fst (make_openmeteo_request net (get_forecast_url lat lon days) log) = Inr data \<and>
    truthy data \<longrightarrow>
      fst (get_forecast net lat lon days log) = Inr (json_dumps data)) \<and>
   (fst (make_openmeteo_request net (get_location_url search_term cnt) log) = Inr data \<and>
    truthy data \<longrightarrow>
      fst (get_location net search_term cnt log) = Inr (json_dumps data)) \<and>
   fst (get_current_weather
          (stub_response 200 scenario_body)
          (PyFloat (Finite False 5252 (- 2))) (PyFloat (Finite False 13405 (- 3))) log) =
     Inr scenario_body"
proof -
  let ?b = scenario_body
  let ?v = "JObj [(''current'', JObj [(''temperature_2m'', JFloat (Finite False 183 (- 1)))])]"
  have f: "make_openmeteo_request (stub_response 200 ?b) u log = (Inr ?v, log)" for u
    by (simp add: loads_scenario stub_response_def
        fetch_response [of "stub_response 200 ?b" u "\<lparr>status_code = 200, body = ?b\<rparr>"])
  have r: "fst (get_current_weather (stub_response 200 ?b)
      (PyFloat (Finite False 5252 (- 2))) (PyFloat (Finite False 13405 (- 3))) log) =
      Inr (if truthy ?v then json_dumps ?v
           else ''Unable to fetch current weather data for this location.'')"
    by (rule current_weather_result) (simp add: f)
  have "fst (get_current_weather (stub_response 200 ?b)
      (PyFloat (Finite False 5252 (- 2))) (PyFloat (Finite False 13405 (- 3))) log) = Inr ?b"
    unfolding r dumps_scenario by simp
  then show ?thesis
    by (simp add: current_weather_result forecast_result location_result)
qed

theorem truthy_data_is_serialized_verbatim_witness:
  "fst (make_openmeteo_request (stub_response 200 ''[1]'')
          (get_current_weather_url (PyInt 0) (PyInt 0)) []) = Inr (JArr [JInt 1]) \<and>
   truthy (JArr [JInt 1]) \<and>
   fst (get_current_weather (stub_response 200 ''[1]'') (PyInt 0) (PyInt 0) []) = Inr ''[1]'' \<and>
   fst (get_forecast (stub_response 200 ''[1]'') (PyInt 0) (PyInt 0) None []) = Inr ''[1]'' \<and>
   fst (get_location (stub_response 200 ''[1]'') ''Berlin'' None []) = Inr ''[1]''"
proof -
  have f: "make_openmeteo_request (stub_response 200 ''[1]'') u [] = (Inr (JArr [JInt 1]), [])"
    for u
    by (simp add: loads_array stub_response_def
        fetch_response [of "stub_response 200 ''[1]''" u "\<lparr>status_code = 200, body = ''[1]''\<rparr>"])
  show ?thesis
    using truthy_data_is_serialized_verbatim
      [of "stub_response 200 ''[1]''" "PyInt 0" "PyInt 0" "[]" "JArr [JInt 1]" None
        "''Berlin''" None]
    by (simp add: f dumps_eval)
qed

text \<open>
  Claim C8 as stated covers every value the fetcher returns: with the upstream answering
  \<open>{}\<close> the fetcher returns the empty object, and the tool does not return its
  serialization.
\<close>

theorem empty_object_not_serialized_counterexample:
  "fst (make_openmeteo_request (stub_response 200 ''{}'')
          (get_current_weather_url (PyInt 0) (PyInt 0)) []) = Inr (JObj []) \<and>
   json_dumps (JObj []) = ''{}'' \<and>
   fst (get_current_weather (stub_response 200 ''{}'') (PyInt 0) (PyInt 0) []) \<noteq>
     Inr (json_dumps (JObj []))"
proof -
  have f: "make_openmeteo_request (stub_response 200 ''{}'') u [] = (Inr (JObj []), [])" for u
    by (simp add: loads_empty_object stub_response_def
        fetch_response [of "stub_response 200 ''{}''" u "\<lparr>status_code = 200, body = ''{}''\<rparr>"])
  show ?thesis
    by (simp add: f current_weather_result)
qed

section \<open>Numbers read back\<close>


















section \<open>Strings read back\<close>








section \<open>Floats read back\<close>
















section \<open>Values read back\<close>


















lemma dumps_dict_quote: "\<exists>s'. dumps_dict (p # ps) @ r = CHR 0x22 # s'"
  by (cases p; cases ps) (simp_all add: encode_basestring_ascii_def)





section \<open>What the decoder returns\<close>






lemma wf_list_iff: "wf_list vs \<longleftrightarrow> (\<forall>v \<in> set vs. wf_json v)"
  by (induction vs) auto








section \<open>The round trip of a tool\<close>




end
